theory Spec2Isabelle
  imports Complex_Main "HOL-Library.Word"
begin

section \<open>Arcam AVR protocol client: frame codec, command catalog and session\<close>

text \<open>
  A shallow embedding of \<^verbatim>\<open>arcam/protocol.py\<close>, \<^verbatim>\<open>arcam/commands.py\<close> and
  \<^verbatim>\<open>arcam/connection.py\<close>. Python \<^verbatim>\<open>int\<close> is \<^typ>\<open>int\<close>, an element of a Python
  \<^verbatim>\<open>bytes\<close> object is an 8-bit word, and every exception the code can raise is a value
  of the type \<open>error\<close>; a function that may raise returns \<open>error + 'a\<close>.
\<close>

subsection \<open>Bytes, errors and Python's sequence operations\<close>

type_synonym byte = "8 word"

datatype error =
    ArcamProtocolError
  | ArcamConnectionError
  | ArcamTimeoutError
  | ValueError
  | IndexError
  | AttributeError
  | TimeoutError
  | OSError

text \<open>Sequencing of fallible steps: the first exception raised ends the computation.\<close>

definition bind_err :: "error + 'a \<Rightarrow> ('a \<Rightarrow> error + 'b) \<Rightarrow> error + 'b" where
  "bind_err m f = (case m of Inl e \<Rightarrow> Inl e | Inr x \<Rightarrow> f x)"

text \<open>\<^verbatim>\<open>bytes([...])\<close> and \<^verbatim>\<open>bytearray([...])\<close>: every element must be in \<^verbatim>\<open>range(256)\<close>,
  otherwise Python raises \<^verbatim>\<open>ValueError\<close>.\<close>

definition to_byte :: "int \<Rightarrow> error + byte" where
  "to_byte i = (if 0 \<le> i \<and> i \<le> 255 then Inr (word_of_int i) else Inl ValueError)"

fun bytes_of :: "int list \<Rightarrow> error + byte list" where
  "bytes_of [] = Inr []"
| "bytes_of (i # is) =
     bind_err (to_byte i) (\<lambda>b. bind_err (bytes_of is) (\<lambda>bs. Inr (b # bs)))"

text \<open>\<^verbatim>\<open>data[i]\<close> on a bytes object: a negative index counts from the end, an index out of
  range raises \<^verbatim>\<open>IndexError\<close>, and the element read is a Python int.\<close>

definition byte_at :: "byte list \<Rightarrow> int \<Rightarrow> error + int" where
  "byte_at bs i =
     (let n = int (length bs); k = (if i < 0 then i + n else i)
      in if k < 0 \<or> n \<le> k then Inl IndexError else Inr (uint (bs ! nat k)))"

text \<open>\<^verbatim>\<open>data[i:j]\<close>: both bounds are clipped to the sequence, a negative bound counts from
  the end, and the slice is empty when the bounds cross.\<close>

definition clip_index :: "nat \<Rightarrow> int \<Rightarrow> nat" where
  "clip_index n i = (if i < 0 then nat (max 0 (int n + i)) else min n (nat i))"

definition py_slice :: "'a list \<Rightarrow> int \<Rightarrow> int \<Rightarrow> 'a list" where
  "py_slice xs i j =
     (let lo = clip_index (length xs) i; hi = clip_index (length xs) j
      in take (hi - lo) (drop lo xs))"

subsection \<open>protocol.py: constants, commands and responses\<close>

definition START_BYTE :: int where "START_BYTE = 0x21"
definition END_BYTE :: int where "END_BYTE = 0x0D"

definition ANSWER_OK :: int where "ANSWER_OK = 0x00"
definition ANSWER_ZONE_INVALID :: int where "ANSWER_ZONE_INVALID = 0x82"
definition ANSWER_COMMAND_NOT_RECOGNIZED :: int where "ANSWER_COMMAND_NOT_RECOGNIZED = 0x83"
definition ANSWER_PARAMETER_NOT_RECOGNIZED :: int where "ANSWER_PARAMETER_NOT_RECOGNIZED = 0x84"
definition ANSWER_COMMAND_INVALID_AT_THIS_TIME :: int where
  "ANSWER_COMMAND_INVALID_AT_THIS_TIME = 0x85"
definition ANSWER_INVALID_DATA_LENGTH :: int where "ANSWER_INVALID_DATA_LENGTH = 0x86"

record ArcamCommand =
  zone :: int
  command_code :: int
  data :: "byte list"

text \<open>Construction of an \<^verbatim>\<open>ArcamCommand\<close>: the dataclass stores the three fields and
  \<^verbatim>\<open>__post_init__\<close> then validates them, raising \<^verbatim>\<open>ArcamProtocolError\<close>.\<close>

definition new_ArcamCommand :: "int \<Rightarrow> int \<Rightarrow> byte list \<Rightarrow> error + ArcamCommand" where
  "new_ArcamCommand z cc d =
     (if \<not> (1 \<le> z \<and> z \<le> 2) then Inl ArcamProtocolError
      else if \<not> (0 \<le> cc \<and> cc \<le> 255) then Inl ArcamProtocolError
      else if length d > 255 then Inl ArcamProtocolError
      else Inr \<lparr>ArcamCommand.zone = z, command_code = cc, data = d\<rparr>)"

record ArcamResponse =
  zone :: int
  command_code :: int
  answer_code :: int
  data :: "byte list"

definition is_success :: "ArcamResponse \<Rightarrow> bool" where
  "is_success r = (answer_code r = ANSWER_OK)"

definition error_messages :: "(int \<times> string) list" where
  "error_messages =
     [(ANSWER_ZONE_INVALID, ''Invalid zone specified''),
      (ANSWER_COMMAND_NOT_RECOGNIZED, ''Command not recognized''),
      (ANSWER_PARAMETER_NOT_RECOGNIZED, ''Parameter not recognized''),
      (ANSWER_COMMAND_INVALID_AT_THIS_TIME, ''Command invalid at this time''),
      (ANSWER_INVALID_DATA_LENGTH, ''Invalid data length'')]"

definition error_message :: "ArcamResponse \<Rightarrow> string option" where
  "error_message r = map_of error_messages (answer_code r)"

text \<open>\<^verbatim>\<open>encode_command\<close>: \<^verbatim>\<open>St Zn Cc Dl Data... Et\<close>. The header goes through
  \<^verbatim>\<open>bytearray([...])\<close>, which raises on an element outside 0..255.\<close>

definition encode_command :: "ArcamCommand \<Rightarrow> error + byte list" where
  "encode_command command =
     (let data_length = int (length (ArcamCommand.data command))
      in bind_err (bytes_of [START_BYTE, ArcamCommand.zone command,
                             ArcamCommand.command_code command, data_length])
           (\<lambda>command_bytes.
              let command_bytes = (if ArcamCommand.data command \<noteq> []
                                   then command_bytes @ ArcamCommand.data command
                                   else command_bytes)
              in bind_err (to_byte END_BYTE) (\<lambda>e. Inr (command_bytes @ [e]))))"

text \<open>\<^verbatim>\<open>decode_response\<close>: \<^verbatim>\<open>St Zn Cc Ac Dl Data... Et\<close>.\<close>

definition decode_response :: "byte list \<Rightarrow> error + ArcamResponse" where
  "decode_response bs =
     (if length bs < 6 then Inl ArcamProtocolError
      else bind_err (byte_at bs 0) (\<lambda>b0.
        if b0 \<noteq> START_BYTE then Inl ArcamProtocolError
        else bind_err (byte_at bs (- 1)) (\<lambda>bl.
          if bl \<noteq> END_BYTE then Inl ArcamProtocolError
          else bind_err (byte_at bs 1) (\<lambda>zone.
            bind_err (byte_at bs 2) (\<lambda>command_code.
            bind_err (byte_at bs 3) (\<lambda>answer_code.
            bind_err (byte_at bs 4) (\<lambda>data_length.
              let expected_length = 6 + data_length
              in if int (length bs) \<noteq> expected_length then Inl ArcamProtocolError
                 else Inr \<lparr>ArcamResponse.zone = zone, command_code = command_code,
                           answer_code = answer_code,
                           data = (if data_length > 0 then py_slice bs 5 (5 + data_length)
                                   else [])\<rparr>)))))))"

text \<open>\<^verbatim>\<open>validate_response\<close> also logs a warning on a mismatch; the log entries a call
  appends are its second result.\<close>

datatype log_entry =
    WarnCommandCodeMismatch int int
  | WarnResponseMismatch

definition validate_response :: "ArcamResponse \<Rightarrow> int \<Rightarrow> bool \<times> log_entry list" where
  "validate_response response expected_command =
     (if ArcamResponse.command_code response \<noteq> expected_command
      then (False, [WarnCommandCodeMismatch expected_command
                      (ArcamResponse.command_code response)])
      else (True, []))"

subsection \<open>commands.py: command codes, source table, builders and decoders\<close>

definition POWER :: int where "POWER = 0x00"
definition SOFTWARE_VERSION :: int where "SOFTWARE_VERSION = 0x04"
definition RC5_SIMULATE :: int where "RC5_SIMULATE = 0x08"
definition VOLUME :: int where "VOLUME = 0x0D"
definition MUTE :: int where "MUTE = 0x0E"
definition SOURCE :: int where "SOURCE = 0x1D"

text \<open>The dict literal \<^verbatim>\<open>RC5_SOURCES\<close>, in source order; its keys are distinct, so a
  lookup is \<open>map_of\<close>.\<close>

definition RC5_SOURCES :: "(string \<times> int \<times> int) list" where
  "RC5_SOURCES =
     [(''CD'', (0x10, 0x76)),
      (''BD'', (0x10, 0x62)),
      (''AV'', (0x10, 0x5E)),
      (''STB'', (0x10, 0x64)),
      (''SAT'', (0x10, 0x1B)),
      (''PVR'', (0x10, 0x60)),
      (''VCR'', (0x10, 0x63)),
      (''AUX'', (0x10, 0x63)),
      (''GAME'', (0x10, 0x61)),
      (''NET'', (0x10, 0x5C)),
      (''FM'', (0x10, 0x1C)),
      (''DAB'', (0x10, 0x48)),
      (''BT'', (0x10, 0x7A)),
      (''USB'', (0x10, 0x7B)),
      (''UHD'', (0x10, 0x7D))]"

text \<open>\<^verbatim>\<open>str.upper()\<close> on ASCII text: the letters a..z are mapped to A..Z and every other
  character is kept. Source names are modelled as ASCII strings.\<close>

definition upper_char :: "char \<Rightarrow> char" where
  "upper_char c =
     (case map_of (zip ''abcdefghijklmnopqrstuvwxyz'' ''ABCDEFGHIJKLMNOPQRSTUVWXYZ'') c of
        None \<Rightarrow> c
      | Some u \<Rightarrow> u)"

definition upper :: "string \<Rightarrow> string" where
  "upper s = map upper_char s"

definition power_on :: "int \<Rightarrow> error + ArcamCommand" where
  "power_on z =
     (if \<not> (1 \<le> z \<and> z \<le> 2) then Inl ValueError
      else bind_err (bytes_of [0x01]) (\<lambda>d. new_ArcamCommand z POWER d))"

definition select_source :: "string \<Rightarrow> int \<Rightarrow> error + ArcamCommand" where
  "select_source source z =
     (if \<not> (1 \<le> z \<and> z \<le> 2) then Inl ValueError
      else let source_upper = upper source
           in case map_of RC5_SOURCES source_upper of
                None \<Rightarrow> Inl ValueError
              | Some (d1, d2) \<Rightarrow>
                  bind_err (bytes_of [d1, d2]) (\<lambda>d. new_ArcamCommand z RC5_SIMULATE d))"

text \<open>The payload decoders return \<open>None\<close> on a payload whose length is not 1; past
  that check \<^verbatim>\<open>data[0]\<close> is in range.\<close>

definition decode_power_response :: "byte list \<Rightarrow> bool option" where
  "decode_power_response d =
     (if length d \<noteq> 1 then None else Some (uint (d ! 0) = 0x01))"

definition decode_mute_response :: "byte list \<Rightarrow> bool option" where
  "decode_mute_response d =
     (if length d \<noteq> 1 then None else Some (uint (d ! 0) = 0x01))"

subsection \<open>connection.py: the session\<close>


text \<open>
  The socket is the environment. A \<^verbatim>\<open>StreamReader\<close> is the list of what is to come on
  it: bytes that arrive together (a chunk), the enclosing \<^verbatim>\<open>asyncio.wait_for\<close> timing out
  while a read waits, or an \<^verbatim>\<open>OSError\<close> raised by a read. \<^verbatim>\<open>read(n)\<close> takes the next
  event: of a chunk it returns at most \<open>n\<close> bytes and leaves the others buffered for
  the reads that follow. The empty list is a reader at end of file with an empty
  buffer: \<^verbatim>\<open>at_eof()\<close> is true and \<^verbatim>\<open>read\<close> returns \<^verbatim>\<open>b""\<close>. A \<^verbatim>\<open>StreamWriter\<close> records
  whether it is closing, whether \<^verbatim>\<open>write\<close>/\<^verbatim>\<open>drain\<close> on it raise \<^verbatim>\<open>OSError\<close> (of which
  \<^verbatim>\<open>ConnectionError\<close> is a subclass), and the bytes written so far.
\<close>

datatype read_event = Chunk "byte list" | ReadTimeout | ReadOSError

record StreamWriter =
  closing :: bool
  broken :: bool
  sent :: "byte list"

fun stream_read :: "nat \<Rightarrow> read_event list \<Rightarrow> (error + byte list) \<times> read_event list" where
  "stream_read n [] = (Inr [], [])"
| "stream_read n (Chunk bs # rd) =
     (Inr (take n bs), if drop n bs = [] then rd else Chunk (drop n bs) # rd)"
| "stream_read n (ReadTimeout # rd) = (Inl TimeoutError, rd)"
| "stream_read n (ReadOSError # rd) = (Inl OSError, rd)"

text \<open>The bytes and events a reader still holds; every read of at least one byte from a
  reader that is not at end of file makes it smaller.\<close>

fun event_weight :: "read_event \<Rightarrow> nat" where
  "event_weight (Chunk bs) = Suc (length bs)"
| "event_weight ReadTimeout = 1"
| "event_weight ReadOSError = 1"

definition reader_weight :: "read_event list \<Rightarrow> nat" where
  "reader_weight rd = sum_list (map event_weight rd)"

text \<open>What \<^verbatim>\<open>asyncio.wait_for(asyncio.open_connection(...), timeout)\<close> does: it returns a
  reader and a writer, times out, or raises \<^verbatim>\<open>OSError\<close>.\<close>

datatype connect_outcome =
    Opened "read_event list" StreamWriter
  | OpenTimeout
  | OpenOSError

text \<open>Tasks handed to \<^verbatim>\<open>asyncio.create_task\<close>, and whether a task object is done.\<close>

datatype task = HandleConnectionLost | BroadcastListener | ReconnectWithBackoff

datatype task_status = TaskRunning | TaskDone

text \<open>The fields of \<^verbatim>\<open>ArcamConnection\<close> that the modelled methods read or write. A
  broadcast callback returns \<open>None\<close> when it returns normally and \<open>Some e\<close> when it
  raises \<open>e\<close>. \<open>reconnect_task\<close> is \<open>None\<close> while \<^verbatim>\<open>_reconnect_task\<close> is \<^verbatim>\<open>None\<close> and
  otherwise tells whether that task is done. \<open>created_tasks\<close> lists the tasks created so
  far and \<open>warnings\<close> the warnings logged so far; \<open>connected_flag\<close> is the attribute
  \<^verbatim>\<open>_connected\<close>.\<close>

record ArcamConnection =
  reader :: "read_event list option"
  writer :: "StreamWriter option"
  connected_flag :: bool
  broadcast_callback :: "(ArcamResponse \<Rightarrow> error option) option"
  reconnect_attempts :: nat
  reconnect_task :: "task_status option"
  created_tasks :: "task list"
  warnings :: "log_entry list"


definition is_connected :: "ArcamConnection \<Rightarrow> bool" where
  "is_connected s =
     (connected_flag s \<and> (case writer s of None \<Rightarrow> False | Some w \<Rightarrow> \<not> closing w))"

text \<open>\<^verbatim>\<open>connect\<close>, with the outcome of its one await. Nothing else is taken to run on the
  session between the test of \<^verbatim>\<open>is_connected\<close> and the assignments.\<close>

definition connect :: "connect_outcome \<Rightarrow> ArcamConnection \<Rightarrow> error option \<times> ArcamConnection" where
  "connect outcome s =
     (if is_connected s then (None, s)
      else case outcome of
             Opened rd w \<Rightarrow>
               (None, s\<lparr>reader := Some rd, writer := Some w, connected_flag := True,
                        reconnect_attempts := 0\<rparr>)
           | OpenTimeout \<Rightarrow> (Some ArcamConnectionError, s)
           | OpenOSError \<Rightarrow> (Some ArcamConnectionError, s))"

text \<open>\<^verbatim>\<open>_read_response\<close>: a header of five bytes, whose fifth byte is the data length,
  then the data and the end byte. It changes nothing but the reader.\<close>

definition read_response ::
  "read_event list option \<Rightarrow> (error + byte list) \<times> read_event list option" where
  "read_response r =
     (case r of
        None \<Rightarrow> (Inl ArcamConnectionError, None)
      | Some rd \<Rightarrow>
          (case stream_read 5 rd of
             (Inl e, rd1) \<Rightarrow> (Inl e, Some rd1)
           | (Inr header, rd1) \<Rightarrow>
               if length header < 5 then (Inl ArcamProtocolError, Some rd1)
               else (case byte_at header 4 of
                       Inl e \<Rightarrow> (Inl e, Some rd1)
                     | Inr data_length \<Rightarrow>
                         let remaining = data_length + 1
                         in if remaining > 0
                            then (case stream_read (nat remaining) rd1 of
                                    (Inl e, rd2) \<Rightarrow> (Inl e, Some rd2)
                                  | (Inr data_and_end, rd2) \<Rightarrow>
                                      if int (length data_and_end) < remaining
                                      then (Inl ArcamProtocolError, Some rd2)
                                      else (Inr (header @ data_and_end), Some rd2))
                            else (case stream_read 1 rd1 of
                                    (Inl e, rd2) \<Rightarrow> (Inl e, Some rd2)
                                  | (Inr end_byte, rd2) \<Rightarrow>
                                      if length end_byte < 1
                                      then (Inl ArcamProtocolError, Some rd2)
                                      else (Inr (header @ end_byte), Some rd2)))))"

text \<open>\<^verbatim>\<open>send_command\<close>. Inside its \<^verbatim>\<open>try\<close>, a timeout becomes \<^verbatim>\<open>ArcamTimeoutError\<close> and
  an \<^verbatim>\<open>OSError\<close> becomes \<^verbatim>\<open>ArcamConnectionError\<close>, both after a
  \<^verbatim>\<open>_handle_connection_lost\<close> task is created; every other exception propagates as
  it is. A session that is connected has a writer, so the \<^verbatim>\<open>AttributeError\<close> of a call
  on \<^verbatim>\<open>None\<close> does not arise.\<close>

definition send_failed :: "error \<Rightarrow> ArcamConnection \<Rightarrow> (error + ArcamResponse) \<times> ArcamConnection" where
  "send_failed e s =
     (if e = TimeoutError
      then (Inl ArcamTimeoutError, s\<lparr>created_tasks := created_tasks s @ [HandleConnectionLost]\<rparr>)
      else if e = OSError
      then (Inl ArcamConnectionError,
            s\<lparr>created_tasks := created_tasks s @ [HandleConnectionLost]\<rparr>)
      else (Inl e, s))"

definition send_command ::
  "ArcamConnection \<Rightarrow> ArcamCommand \<Rightarrow> (error + ArcamResponse) \<times> ArcamConnection" where
  "send_command s command =
     (if \<not> is_connected s then (Inl ArcamConnectionError, s)
      else case encode_command command of
             Inl e \<Rightarrow> send_failed e s
           | Inr command_bytes \<Rightarrow>
               (case writer s of
                  None \<Rightarrow> send_failed AttributeError s
                | Some w \<Rightarrow>
                    if broken w then send_failed OSError s
                    else let s1 = s\<lparr>writer := Some (w\<lparr>sent := sent w @ command_bytes\<rparr>)\<rparr>
                         in (case read_response (reader s1) of
                               (Inl e, rd) \<Rightarrow> send_failed e (s1\<lparr>reader := rd\<rparr>)
                             | (Inr response_data, rd) \<Rightarrow>
                                 let s2 = s1\<lparr>reader := rd\<rparr>
                                 in (case decode_response response_data of
                                       Inl e \<Rightarrow> send_failed e s2
                                     | Inr response \<Rightarrow>
                                         (case validate_response response
                                                 (ArcamCommand.command_code command) of
                                            (ok, warned) \<Rightarrow>
                                              (Inr response,
                                               s2\<lparr>warnings := warnings s2 @ warned @
                                                    (if \<not> ok then [WarnResponseMismatch]
                                                     else [])\<rparr>))))))"

text \<open>\<^verbatim>\<open>_broadcast_listener\<close>. The loop runs while the session is connected and the reader
  is not at end of file; \<^verbatim>\<open>asyncio.TimeoutError\<close> raised in an iteration continues the
  loop and any other exception leaves it (as would the \<^verbatim>\<open>AttributeError\<close> of a reader
  that is \<^verbatim>\<open>None\<close>). The second component lists the responses handed to the callback.
  Nothing is raised to the caller.\<close>

function broadcast_loop ::
  "ArcamConnection \<Rightarrow> ArcamResponse list \<Rightarrow> ArcamConnection \<times> ArcamResponse list" where
  "broadcast_loop s delivered =
     (if \<not> is_connected s then (s, delivered)
      else case reader s of
             None \<Rightarrow> (s, delivered)
           | Some rd \<Rightarrow>
               if rd = [] then (s, delivered)
               else (case read_response (Some rd) of
                       (Inl e, rd') \<Rightarrow>
                         if e = TimeoutError then broadcast_loop (s\<lparr>reader := rd'\<rparr>) delivered
                         else (s\<lparr>reader := rd'\<rparr>, delivered)
                     | (Inr response_data, rd') \<Rightarrow>
                         (case decode_response response_data of
                            Inl e \<Rightarrow>
                              if e = TimeoutError
                              then broadcast_loop (s\<lparr>reader := rd'\<rparr>) delivered
                              else (s\<lparr>reader := rd'\<rparr>, delivered)
                          | Inr response \<Rightarrow>
                              (case broadcast_callback s of
                                 None \<Rightarrow> broadcast_loop (s\<lparr>reader := rd'\<rparr>) delivered
                               | Some callback \<Rightarrow>
                                   (case callback response of
                                      None \<Rightarrow>
                                        broadcast_loop (s\<lparr>reader := rd'\<rparr>)
                                          (delivered @ [response])
                                    | Some e \<Rightarrow>
                                        if e = TimeoutError
                                        then broadcast_loop (s\<lparr>reader := rd'\<rparr>)
                                               (delivered @ [response])
                                        else (s\<lparr>reader := rd'\<rparr>,
                                              delivered @ [response]))))))"
  by pat_completeness auto

lemma stream_read_weight:
  "stream_read n rd = (res, rd') \<Longrightarrow> reader_weight rd' \<le> reader_weight rd"
  by (cases "(n, rd)" rule: stream_read.cases) (auto simp: reader_weight_def split: if_splits)

lemma stream_read_lighter:
  "0 < n \<Longrightarrow> rd \<noteq> [] \<Longrightarrow> stream_read n rd = (res, rd') \<Longrightarrow>
   reader_weight rd' < reader_weight rd"
  by (cases "(n, rd)" rule: stream_read.cases) (auto simp: reader_weight_def split: if_splits)

lemma read_response_lighter:
  assumes "rd \<noteq> []" and "read_response (Some rd) = (res, r')"
  shows "\<exists>rd'. r' = Some rd' \<and> reader_weight rd' < reader_weight rd"
proof -
  obtain x rd1 where r1: "stream_read 5 rd = (x, rd1)" by (cases "stream_read 5 rd")
  have l1: "reader_weight rd1 < reader_weight rd"
    using stream_read_lighter [OF _ assms(1) r1] by simp
  have l2: "\<And>n y rd2. stream_read n rd1 = (y, rd2) \<Longrightarrow> reader_weight rd2 < reader_weight rd"
    using stream_read_weight l1 by fastforce
  show ?thesis using assms(2) r1 l1 l2
    by (auto simp: read_response_def Let_def split: sum.splits if_splits prod.splits)
qed

termination broadcast_loop
proof (relation "measure (\<lambda>(s, d). case reader s of None \<Rightarrow> 0 | Some rd \<Rightarrow> reader_weight rd)")
  show "wf (measure (\<lambda>(s, d). case reader s of None \<Rightarrow> 0 | Some rd \<Rightarrow> reader_weight rd))"
    by simp
qed (auto dest!: read_response_lighter [OF _ sym])

declare broadcast_loop.simps [simp del]

definition broadcast_listener :: "ArcamConnection \<Rightarrow> ArcamConnection \<times> ArcamResponse list" where
  "broadcast_listener s = (if reader s = None then (s, []) else broadcast_loop s [])"

text \<open>\<^verbatim>\<open>_handle_connection_lost\<close>: it marks the session disconnected and creates the
  reconnection task, unless one exists that is not done. The task runs later, as
  \<open>reconnect_with_backoff\<close> below.\<close>

definition handle_connection_lost :: "ArcamConnection \<Rightarrow> ArcamConnection" where
  "handle_connection_lost s =
     (if \<not> connected_flag s then s
      else let s1 = s\<lparr>connected_flag := False\<rparr>
           in if reconnect_task s1 = None \<or> reconnect_task s1 = Some TaskDone
              then s1\<lparr>reconnect_task := Some TaskRunning,
                      created_tasks := created_tasks s1 @ [ReconnectWithBackoff]\<rparr>
              else s1)"

text \<open>What other tasks may do to the reconnection state while the reconnection task is
  suspended: call \<^verbatim>\<open>connect\<close> (as the coordinator does on every poll of a session that
  is not connected), or run \<^verbatim>\<open>_handle_connection_lost\<close> (created by a failing
  \<^verbatim>\<open>send_command\<close>).\<close>

datatype call = CallConnect connect_outcome | CallConnectionLost

fun other_call :: "call \<Rightarrow> ArcamConnection \<Rightarrow> ArcamConnection" where
  "other_call (CallConnect outcome) s = snd (connect outcome s)"
| "other_call CallConnectionLost s = handle_connection_lost s"

definition other_calls :: "call list \<Rightarrow> ArcamConnection \<Rightarrow> ArcamConnection" where
  "other_calls calls s = fold other_call calls s"


subsection \<open>The response shape of a command frame\<close>

text \<open>Follows the spec's words, not the source: "inserting a status byte after the
  operation-code byte (reshaping it as a response frame)". The operation code is the
  third byte of an encoded command.\<close>

definition as_response_frame :: "byte \<Rightarrow> byte list \<Rightarrow> byte list" where
  "as_response_frame status bs = take 3 bs @ [status] @ drop 3 bs"

subsection \<open>Notions used to state the properties of the session\<close>




text \<open>A frame arriving in one piece.\<close>

definition frame_reads :: "byte list \<Rightarrow> read_event list" where
  "frame_reads f = [Chunk f]"

subsection \<open>Example sessions\<close>

definition fresh_writer :: StreamWriter where
  "fresh_writer = \<lparr>closing = False, broken = False, sent = []\<rparr>"





text \<open>Two frames: a volume report for zone 1 (command code \<open>0x0D\<close>, value \<open>0x2A\<close>), and
  a frame whose first byte is not the start byte.\<close>

definition volume_frame :: "byte list" where
  "volume_frame = [0x21, 0x01, 0x0D, 0x00, 0x01, 0x2A, 0x0D]"

definition bad_start_frame :: "byte list" where
  "bad_start_frame = [0x20, 0x01, 0x0D, 0x00, 0x00, 0x0D]"

definition volume_response :: ArcamResponse where
  "volume_response =
     \<lparr>ArcamResponse.zone = 1, command_code = 0x0D, answer_code = 0, data = [0x2A]\<rparr>"

text \<open>A connected session on which a list of reads is pending, with a callback that
  always returns normally.\<close>

definition listening_session :: "read_event list \<Rightarrow> ArcamConnection" where
  "listening_session rd =
     \<lparr>reader = Some rd, writer = Some fresh_writer, connected_flag = True,
      broadcast_callback = Some (\<lambda>response. None), reconnect_attempts = 0,
      reconnect_task = None, created_tasks = [], warnings = []\<rparr>"

section \<open>Properties\<close>

subsection \<open>Auxiliary facts\<close>

lemma bind_err_simps [simp]:
  "bind_err (Inl e) f = Inl e" "bind_err (Inr x) f = f x"
  by (simp_all add: bind_err_def)

lemmas protocol_consts = START_BYTE_def END_BYTE_def ANSWER_OK_def ANSWER_ZONE_INVALID_def
  ANSWER_COMMAND_NOT_RECOGNIZED_def ANSWER_PARAMETER_NOT_RECOGNIZED_def
  ANSWER_COMMAND_INVALID_AT_THIS_TIME_def ANSWER_INVALID_DATA_LENGTH_def

lemma uint_eq_1: "(uint (b::byte) = 1) = (b = 1)"
  by (metis uint_1 word_uint_eq_iff)

subsection \<open>Payload decoders\<close>

text \<open>
  C2 (as the code has it). For every one-byte payload \<open>[b]\<close>, \<^verbatim>\<open>decode_power_response\<close>
  returns "on" exactly when \<open>b\<close> is \<open>0x01\<close> and \<^verbatim>\<open>decode_mute_response\<close> returns "muted"
  exactly when \<open>b\<close> is \<open>0x01\<close>; for every payload whose length is not 1 both return no
  value.
\<close>

theorem decode_power_mute_exactly_one:
  "decode_power_response [b] = Some (b = 0x01) \<and>
   decode_mute_response [b] = Some (b = 0x01) \<and>
   (length d \<noteq> 1 \<longrightarrow> decode_power_response d = None \<and> decode_mute_response d = None)"
  by (simp add: decode_power_response_def decode_mute_response_def uint_eq_1)

theorem decode_power_mute_exactly_one_witness:
  "decode_power_response [0x01] = Some True \<and> decode_mute_response [0x01] = Some True \<and>
   length [0x01, 0x02 :: byte] \<noteq> 1 \<and> decode_power_response [0x01, 0x02] = None \<and>
   decode_mute_response [0x01, 0x02] = None"
  using decode_power_mute_exactly_one [of "0x01" "[0x01, 0x02]"] by simp

text \<open>The nonzero byte \<open>0x02\<close> is decoded as "off" and as "not muted": the decoders do
  not return true for every nonzero byte.\<close>

theorem decode_nonzero_counterexample:
  "decode_power_response [0x02] \<noteq> Some ((0x02 :: byte) \<noteq> 0) \<and>
   decode_mute_response [0x02] \<noteq> Some ((0x02 :: byte) \<noteq> 0)"
  by (simp add: decode_power_response_def decode_mute_response_def)

subsection \<open>Command construction\<close>

text \<open>
  C6. Constructing a command fails with \<^verbatim>\<open>ArcamProtocolError\<close> exactly when the zone is
  outside 1..2, or the command code is outside 0..255, or the payload is longer than 255
  bytes; no other error can arise; and for every input in range the construction
  succeeds and stores zone, command code and payload as they were given.
\<close>

theorem new_ArcamCommand_validation:
  "(new_ArcamCommand z cc d = Inl ArcamProtocolError) =
     (z < 1 \<or> 2 < z \<or> cc < 0 \<or> 255 < cc \<or> 255 < length d) \<and>
   (1 \<le> z \<and> z \<le> 2 \<and> 0 \<le> cc \<and> cc \<le> 255 \<and> length d \<le> 255 \<longrightarrow>
      new_ArcamCommand z cc d = Inr \<lparr>ArcamCommand.zone = z, command_code = cc, data = d\<rparr>) \<and>
   (\<forall>e. new_ArcamCommand z cc d = Inl e \<longrightarrow> e = ArcamProtocolError)"
  by (auto simp: new_ArcamCommand_def)

theorem new_ArcamCommand_validation_witness:
  "new_ArcamCommand 3 0 [] = Inl ArcamProtocolError \<and>
   new_ArcamCommand 1 256 [] = Inl ArcamProtocolError \<and>
   new_ArcamCommand 1 0 (replicate 256 0) = Inl ArcamProtocolError \<and>
   new_ArcamCommand 2 255 (replicate 255 7) =
     Inr \<lparr>ArcamCommand.zone = 2, command_code = 255, data = replicate 255 7\<rparr>"
  using new_ArcamCommand_validation [of 3 0 "[]"] new_ArcamCommand_validation [of 1 256 "[]"]
    new_ArcamCommand_validation [of 1 0 "replicate 256 0"]
    new_ArcamCommand_validation [of 2 255 "replicate 255 7"]
  by simp

subsection \<open>Concrete frames\<close>

text \<open>
  C8. Building the power-on command for zone 1 and encoding it yields exactly the bytes
  \<open>0x21, 0x01, 0x00, 0x01, 0x01, 0x0D\<close>: start byte, zone 1, command code 0, length 1, the
  data byte 1 and the end byte, in that order.
\<close>

theorem power_on_zone1_bytes:
  "bind_err (power_on 1) encode_command = Inr [0x21, 0x01, 0x00, 0x01, 0x01, 0x0D]"
  by (simp add: power_on_def new_ArcamCommand_def encode_command_def to_byte_def POWER_def
      protocol_consts)

subsection \<open>Decoding a response frame\<close>

lemma byte_at_nat: "k < length bs \<Longrightarrow> byte_at bs (int k) = Inr (uint (bs ! k))"
  by (simp add: byte_at_def)

lemma byte_at_numeral:
  "numeral k < length bs \<Longrightarrow> byte_at bs (numeral k) = Inr (uint (bs ! numeral k))"
  using byte_at_nat [of "numeral k" bs] by simp

lemma byte_at_0: "bs \<noteq> [] \<Longrightarrow> byte_at bs 0 = Inr (uint (bs ! 0))"
  using byte_at_nat [of 0 bs] by simp

lemma byte_at_1: "1 < length bs \<Longrightarrow> byte_at bs 1 = Inr (uint (bs ! 1))"
  using byte_at_nat [of 1 bs] by simp

lemma byte_at_last: "bs \<noteq> [] \<Longrightarrow> byte_at bs (- 1) = Inr (uint (last bs))"
  by (simp add: byte_at_def last_conv_nth nat_diff_distrib')

lemma uint_byte_eq_iff: "(uint (b::byte) = uint c) = (b = c)"
  by (simp add: word_uint_eq_iff)

lemma slice_nonneg:
  "0 \<le> i \<Longrightarrow> i \<le> j \<Longrightarrow> py_slice xs i j = take (nat j - nat i) (drop (nat i) xs)"
  by (auto simp: py_slice_def clip_index_def Let_def min_def)

lemma decode_response_long:
  assumes "6 \<le> length bs"
  shows "decode_response bs =
    (if bs ! 0 \<noteq> 0x21 \<or> last bs \<noteq> 0x0D \<or> uint (bs ! 4) \<noteq> int (length bs) - 6
     then Inl ArcamProtocolError
     else Inr \<lparr>ArcamResponse.zone = uint (bs ! 1), command_code = uint (bs ! 2),
               answer_code = uint (bs ! 3), data = take (length bs - 6) (drop 5 bs)\<rparr>)"
proof -
  have ne: "bs \<noteq> []" using assms by auto
  have s: "uint (bs ! 0) = 0x21 \<longleftrightarrow> bs ! 0 = 0x21" "uint (last bs) = 0x0D \<longleftrightarrow> last bs = 0x0D"
    using uint_byte_eq_iff [of "bs ! 0" "0x21"] uint_byte_eq_iff [of "last bs" "0x0D"] by simp_all
  have sl: "uint (bs ! 4) = int (length bs) - 6 \<Longrightarrow>
      py_slice bs 5 (int (length bs) - 1) = take (length bs - 6) (drop 5 bs)"
    using assms by (subst slice_nonneg) (simp_all add: nat_diff_distrib')
  show ?thesis using assms ne
    by (auto simp: decode_response_def byte_at_0 byte_at_1 byte_at_numeral byte_at_last
        START_BYTE_def END_BYTE_def s sl Let_def)
qed

text \<open>
  C4. For every byte sequence \<open>bs\<close>, \<^verbatim>\<open>decode_response\<close> fails with
  \<^verbatim>\<open>ArcamProtocolError\<close> exactly when \<open>bs\<close> has fewer than 6 bytes, or its first byte is
  not \<open>0x21\<close>, or its last byte is not \<open>0x0D\<close>, or the length byte \<open>bs ! 4\<close> differs
  from \<open>length bs - 6\<close>; it fails with no other error (in particular with no index
  fault); and when none of the four holds it succeeds with the zone, command code and
  answer code read from bytes 1, 2 and 3 as they are, whatever their values, and the
  payload bytes in between.
\<close>

theorem decode_response_fails_exactly:
  "(decode_response bs = Inl ArcamProtocolError) =
     (length bs < 6 \<or> bs ! 0 \<noteq> 0x21 \<or> last bs \<noteq> 0x0D \<or>
      uint (bs ! 4) \<noteq> int (length bs) - 6) \<and>
   (\<forall>e. decode_response bs = Inl e \<longrightarrow> e = ArcamProtocolError) \<and>
   (\<not> (length bs < 6 \<or> bs ! 0 \<noteq> 0x21 \<or> last bs \<noteq> 0x0D \<or>
       uint (bs ! 4) \<noteq> int (length bs) - 6) \<longrightarrow>
    decode_response bs =
      Inr \<lparr>ArcamResponse.zone = uint (bs ! 1), command_code = uint (bs ! 2),
           answer_code = uint (bs ! 3), data = take (length bs - 6) (drop 5 bs)\<rparr>)"
proof (cases "length bs < 6")
  case True
  then show ?thesis by (simp add: decode_response_def)
next
  case False
  then have "6 \<le> length bs" by simp
  from decode_response_long [OF this] False show ?thesis by auto
qed

theorem decode_response_fails_exactly_witness:
  "decode_response [0x21, 0x01, 0x00, 0x00, 0x01, 0x01, 0x0D] =
     Inr \<lparr>ArcamResponse.zone = 1, command_code = 0, answer_code = 0, data = [0x01]\<rparr> \<and>
   decode_response [0x21, 0x07, 0xEE, 0x00, 0x00, 0x0D] =
     Inr \<lparr>ArcamResponse.zone = 7, command_code = 0xEE, answer_code = 0, data = []\<rparr> \<and>
   decode_response [0x21, 0x01, 0x00, 0x00, 0x0D] = Inl ArcamProtocolError \<and>
   decode_response [0x20, 0x01, 0x00, 0x00, 0x00, 0x0D] = Inl ArcamProtocolError \<and>
   decode_response [0x21, 0x01, 0x00, 0x00, 0x00, 0x0A] = Inl ArcamProtocolError \<and>
   decode_response [0x21, 0x01, 0x00, 0x00, 0x02, 0x01, 0x0D] = Inl ArcamProtocolError"
  using decode_response_fails_exactly [of "[0x21, 0x01, 0x00, 0x00, 0x01, 0x01, 0x0D]"]
    decode_response_fails_exactly [of "[0x21, 0x07, 0xEE, 0x00, 0x00, 0x0D]"]
    decode_response_fails_exactly [of "[0x21, 0x01, 0x00, 0x00, 0x0D]"]
    decode_response_fails_exactly [of "[0x20, 0x01, 0x00, 0x00, 0x00, 0x0D]"]
    decode_response_fails_exactly [of "[0x21, 0x01, 0x00, 0x00, 0x00, 0x0A]"]
    decode_response_fails_exactly [of "[0x21, 0x01, 0x00, 0x00, 0x02, 0x01, 0x0D]"]
  by simp

subsection \<open>Framing round trip\<close>

lemma uint_to_byte: "0 \<le> i \<Longrightarrow> i \<le> 255 \<Longrightarrow> uint (word_of_int i :: byte) = i"
  by (simp add: uint_word_of_int take_bit_int_eq_self)

lemma encode_command_valid:
  assumes "new_ArcamCommand z cc d = Inr c"
  shows "encode_command c =
    Inr ([0x21, word_of_int z, word_of_int cc, word_of_int (int (length d))] @ d @ [0x0D])"
  using assms
  by (auto simp: new_ArcamCommand_def encode_command_def to_byte_def START_BYTE_def
      END_BYTE_def split: if_splits)

text \<open>
  C3. For every command \<open>c\<close> that construction accepts, \<^verbatim>\<open>encode_command\<close> succeeds,
  and decoding its bytes with a status byte inserted after the command code byte yields
  a response whose zone, command code and payload are those of \<open>c\<close> (and whose answer
  code is the inserted byte).
\<close>

theorem framing_round_trip:
  assumes "new_ArcamCommand z cc d = Inr c"
  shows "\<exists>bs r. encode_command c = Inr bs \<and>
           decode_response (as_response_frame status bs) = Inr r \<and>
           ArcamResponse.zone r = ArcamCommand.zone c \<and>
           ArcamResponse.command_code r = ArcamCommand.command_code c \<and>
           ArcamResponse.data r = ArcamCommand.data c \<and>
           answer_code r = uint status"
proof -
  define bs where
    "bs = [0x21, word_of_int z, word_of_int cc, word_of_int (int (length d))] @ d @ [0x0D]"
  define fr where
    "fr = [0x21, word_of_int z, word_of_int cc, status, word_of_int (int (length d))]
          @ d @ [0x0D]"
  from assms have rng: "1 \<le> z" "z \<le> 2" "0 \<le> cc" "cc \<le> 255" "length d \<le> 255"
    and c: "c = \<lparr>ArcamCommand.zone = z, command_code = cc, data = d\<rparr>"
    by (auto simp: new_ArcamCommand_def split: if_splits)
  have enc: "encode_command c = Inr bs"
    using encode_command_valid [OF assms] by (simp add: bs_def)
  have shape: "as_response_frame status bs = fr"
    by (simp add: as_response_frame_def bs_def fr_def)
  have len: "length fr = length d + 6" by (simp add: fr_def)
  have n: "fr ! 0 = 0x21" "fr ! 1 = word_of_int z" "fr ! 2 = word_of_int cc"
    "fr ! 3 = status" "fr ! 4 = word_of_int (int (length d))" "last fr = 0x0D"
    "drop 5 fr = d @ [0x0D]"
    by (simp_all add: fr_def)
  have u: "uint (word_of_int z :: byte) = z" "uint (word_of_int cc :: byte) = cc"
    "uint (word_of_int (int (length d)) :: byte) = int (length d)"
    using rng uint_to_byte [of z] uint_to_byte [of cc] uint_to_byte [of "int (length d)"]
    by simp_all
  have "6 \<le> length fr" by (simp add: len)
  from decode_response_long [OF this]
  have "decode_response fr =
          Inr \<lparr>ArcamResponse.zone = z, command_code = cc, answer_code = uint status, data = d\<rparr>"
    by (simp only: len n u) simp
  with enc shape c show ?thesis by simp
qed

theorem framing_round_trip_witness:
  "new_ArcamCommand 2 0x0D [0x2A] =
     Inr \<lparr>ArcamCommand.zone = 2, command_code = 0x0D, data = [0x2A]\<rparr> \<and>
   encode_command \<lparr>ArcamCommand.zone = 2, command_code = 0x0D, data = [0x2A]\<rparr> =
     Inr [0x21, 0x02, 0x0D, 0x01, 0x2A, 0x0D] \<and>
   decode_response (as_response_frame 0x00 [0x21, 0x02, 0x0D, 0x01, 0x2A, 0x0D]) =
     Inr \<lparr>ArcamResponse.zone = 2, command_code = 0x0D, answer_code = 0, data = [0x2A]\<rparr>"
proof -
  have h: "new_ArcamCommand 2 0x0D [0x2A] =
     Inr \<lparr>ArcamCommand.zone = 2, command_code = 0x0D, data = [0x2A]\<rparr>"
    by (simp add: new_ArcamCommand_def)
  have e: "encode_command \<lparr>ArcamCommand.zone = 2, command_code = 0x0D, data = [0x2A]\<rparr> =
     Inr [0x21, 0x02, 0x0D, 0x01, 0x2A, 0x0D]"
    by (simp add: encode_command_def to_byte_def protocol_consts)
  from framing_round_trip [OF h, of "0x00"] h e show ?thesis
    by (auto simp: ArcamResponse.equality)
qed

subsection \<open>Answer codes\<close>

text \<open>
  C9. Decoding \<open>0x21, 0x01, 0x00, 0x82, 0x00, 0x0D\<close> succeeds with answer code \<open>0x82\<close>;
  that response is not a success and its error message is "Invalid zone specified". In
  general a response is a success exactly when its answer code is 0, an error message
  is resolved exactly for the five answer codes \<open>0x82\<close> to \<open>0x86\<close>, and any other
  nonzero answer code gives no success and no message.
\<close>

theorem invalid_zone_response:
  "decode_response [0x21, 0x01, 0x00, 0x82, 0x00, 0x0D] =
     Inr \<lparr>ArcamResponse.zone = 1, command_code = 0, answer_code = 0x82, data = []\<rparr> \<and>
   \<not> is_success \<lparr>ArcamResponse.zone = 1, command_code = 0, answer_code = 0x82, data = []\<rparr> \<and>
   error_message \<lparr>ArcamResponse.zone = 1, command_code = 0, answer_code = 0x82, data = []\<rparr> =
     Some ''Invalid zone specified'' \<and>
   is_success r = (answer_code r = 0) \<and>
   (error_message r \<noteq> None) = (answer_code r \<in> {0x82, 0x83, 0x84, 0x85, 0x86}) \<and>
   (answer_code r \<noteq> 0 \<and> answer_code r \<notin> {0x82, 0x83, 0x84, 0x85, 0x86} \<longrightarrow>
      \<not> is_success r \<and> error_message r = None)"
proof -
  have "decode_response [0x21, 0x01, 0x00, 0x82, 0x00, 0x0D] =
     Inr \<lparr>ArcamResponse.zone = 1, command_code = 0, answer_code = 0x82, data = []\<rparr>"
    by (subst decode_response_long) simp_all
  then show ?thesis
    by (auto simp: is_success_def error_message_def error_messages_def protocol_consts)
qed

theorem invalid_zone_response_witness:
  "answer_code \<lparr>ArcamResponse.zone = 1, command_code = 0, answer_code = 0x99, data = []\<rparr> \<noteq> 0 \<and>
   \<not> is_success \<lparr>ArcamResponse.zone = 1, command_code = 0, answer_code = 0x99, data = []\<rparr> \<and>
   error_message \<lparr>ArcamResponse.zone = 1, command_code = 0, answer_code = 0x99, data = []\<rparr> = None \<and>
   error_message \<lparr>ArcamResponse.zone = 1, command_code = 0, answer_code = 0x86, data = []\<rparr> \<noteq> None"
  using invalid_zone_response
    [of "\<lparr>ArcamResponse.zone = 1, command_code = 0, answer_code = 0x99, data = []\<rparr>"]
   invalid_zone_response
    [of "\<lparr>ArcamResponse.zone = 1, command_code = 0, answer_code = 0x86, data = []\<rparr>"]
  by simp

subsection \<open>Source selection\<close>

lemma upper_VCR: "upper ''VCR'' = ''VCR''" "upper ''AUX'' = ''AUX''" "upper ''vcr'' = ''VCR''"
  by (simp_all add: upper_def upper_char_def)

text \<open>
  C10. The table \<^verbatim>\<open>RC5_SOURCES\<close> is not injective: the names "VCR" and "AUX" both
  resolve to the code pair \<open>(0x10, 0x63)\<close>. Hence for a zone \<open>z\<close> in \<open>{1, 2}\<close>,
  \<^verbatim>\<open>select_source("VCR", z)\<close> and \<^verbatim>\<open>select_source("AUX", z)\<close> build the same command
  (zone \<open>z\<close>, command code \<open>0x08\<close>, payload \<open>0x10, 0x63\<close>) and the same bytes on the wire.
\<close>

theorem vcr_aux_same_command:
  "map_of RC5_SOURCES ''VCR'' = Some (0x10, 0x63) \<and>
   map_of RC5_SOURCES ''AUX'' = Some (0x10, 0x63) \<and>
   \<not> inj_on (map_of RC5_SOURCES) (set (map fst RC5_SOURCES)) \<and>
   (z \<in> {1, 2} \<longrightarrow>
      select_source ''VCR'' z = select_source ''AUX'' z \<and>
      select_source ''VCR'' z =
        Inr \<lparr>ArcamCommand.zone = z, command_code = 0x08, data = [0x10, 0x63]\<rparr> \<and>
      bind_err (select_source ''VCR'' z) encode_command =
        bind_err (select_source ''AUX'' z) encode_command)"
proof -
  have v: "map_of RC5_SOURCES ''VCR'' = Some (0x10, 0x63)"
    and a: "map_of RC5_SOURCES ''AUX'' = Some (0x10, 0x63)"
    by (simp_all add: RC5_SOURCES_def)
  have "''VCR'' \<in> set (map fst RC5_SOURCES)" "''AUX'' \<in> set (map fst RC5_SOURCES)"
    by (simp_all add: RC5_SOURCES_def)
  moreover have "''VCR'' \<noteq> ''AUX''" by simp
  ultimately have ni: "\<not> inj_on (map_of RC5_SOURCES) (set (map fst RC5_SOURCES))"
    using v a unfolding inj_on_def by metis
  have sel: "z \<in> {1, 2} \<Longrightarrow> select_source ''VCR'' z =
        Inr \<lparr>ArcamCommand.zone = z, command_code = 0x08, data = [0x10, 0x63]\<rparr>"
      "z \<in> {1, 2} \<Longrightarrow> select_source ''AUX'' z =
        Inr \<lparr>ArcamCommand.zone = z, command_code = 0x08, data = [0x10, 0x63]\<rparr>"
    by (auto simp: select_source_def upper_VCR v a to_byte_def new_ArcamCommand_def
        RC5_SIMULATE_def)
  show ?thesis using v a ni sel by simp
qed

theorem vcr_aux_same_command_witness:
  "(1::int) \<in> {1, 2} \<and> select_source ''VCR'' 1 = select_source ''AUX'' 1 \<and>
   select_source ''VCR'' 1 =
     Inr \<lparr>ArcamCommand.zone = 1, command_code = 0x08, data = [0x10, 0x63]\<rparr>"
proof -
  have h: "(1::int) \<in> {1, 2}" by simp
  from vcr_aux_same_command [of 1] h show ?thesis by blast
qed

subsection \<open>The broadcast listener\<close>

lemma decode_response_raises: "decode_response bs = Inl e \<Longrightarrow> e = ArcamProtocolError"
proof (cases "length bs < 6")
  case True
  then show "decode_response bs = Inl e \<Longrightarrow> e = ArcamProtocolError"
    by (simp add: decode_response_def)
next
  case False
  then have "6 \<le> length bs" by simp
  from decode_response_long [OF this]
  show "decode_response bs = Inl e \<Longrightarrow> e = ArcamProtocolError"
    by (simp split: if_splits)
qed

lemma decode_volume_frame: "decode_response volume_frame = Inr volume_response"
  unfolding volume_frame_def volume_response_def by (subst decode_response_long) simp_all

lemma decode_bad_start_frame: "decode_response bad_start_frame = Inl ArcamProtocolError"
  unfolding bad_start_frame_def by (subst decode_response_long) simp_all

lemma is_connected_reader [simp]: "is_connected (s\<lparr>reader := rd\<rparr>) = is_connected s"
  by (simp add: is_connected_def)

lemma read_volume_frame:
  "read_response (Some (frame_reads volume_frame @ rest)) = (Inr volume_frame, Some rest)"
  by (simp add: read_response_def frame_reads_def volume_frame_def byte_at_def)

lemma read_bad_start_frame:
  "read_response (Some (frame_reads bad_start_frame @ rest)) = (Inr bad_start_frame, Some rest)"
  by (simp add: read_response_def frame_reads_def bad_start_frame_def byte_at_def)

lemma broadcast_loop_timeout:
  assumes "is_connected s" and "reader s = Some rd" and "rd \<noteq> []"
    and "read_response (Some rd) = (Inl TimeoutError, rd')"
  shows "broadcast_loop s delivered = broadcast_loop (s\<lparr>reader := rd'\<rparr>) delivered"
  using assms by (subst broadcast_loop.simps) simp

lemma broadcast_loop_decode_failure:
  assumes "is_connected s" and "reader s = Some rd" and "rd \<noteq> []"
    and "read_response (Some rd) = (Inr response_data, rd')"
    and "decode_response response_data = Inl e"
  shows "broadcast_loop s delivered = (s\<lparr>reader := rd'\<rparr>, delivered)"
proof -
  have "e = ArcamProtocolError" using assms(5) by (rule decode_response_raises)
  then show ?thesis using assms
    by (subst broadcast_loop.simps) simp
qed

text \<open>
  C1 (as the code has it). While the session is connected and the reader is not at end
  of file, an iteration of the listener loop whose read times out continues with the
  next iteration, and an iteration whose frame does not decode leaves the loop: the
  frame is dropped, nothing is handed to the callback, nothing is raised, and nothing
  more is read.
\<close>

theorem listener_leaves_on_decode_failure:
  assumes "is_connected s" and "reader s = Some rd" and "rd \<noteq> []"
  shows "(\<forall>rd'. read_response (Some rd) = (Inl TimeoutError, rd') \<longrightarrow>
            broadcast_loop s delivered = broadcast_loop (s\<lparr>reader := rd'\<rparr>) delivered) \<and>
         (\<forall>rd' response_data e.
            read_response (Some rd) = (Inr response_data, rd') \<and>
            decode_response response_data = Inl e \<longrightarrow>
            broadcast_loop s delivered = (s\<lparr>reader := rd'\<rparr>, delivered))"
  using assms broadcast_loop_timeout broadcast_loop_decode_failure by blast

lemma listening_session_reader [simp]:
  "listening_session rd\<lparr>reader := Some rd'\<rparr> = listening_session rd'"
  "reader (listening_session rd) = Some rd"
  "broadcast_callback (listening_session rd) = Some (\<lambda>response. None)"
  by (simp_all add: listening_session_def)

lemma listening_session_connected: "is_connected (listening_session rd)"
  by (simp add: listening_session_def is_connected_def fresh_writer_def)

theorem listener_leaves_on_decode_failure_witness:
  "is_connected (listening_session (ReadTimeout # frame_reads volume_frame)) \<and>
   read_response (Some (ReadTimeout # frame_reads volume_frame)) =
     (Inl TimeoutError, Some (frame_reads volume_frame)) \<and>
   broadcast_loop (listening_session (ReadTimeout # frame_reads volume_frame)) [] =
     broadcast_loop (listening_session (frame_reads volume_frame)) [] \<and>
   is_connected (listening_session (frame_reads bad_start_frame @ frame_reads volume_frame)) \<and>
   read_response (Some (frame_reads bad_start_frame @ frame_reads volume_frame)) =
     (Inr bad_start_frame, Some (frame_reads volume_frame)) \<and>
   decode_response bad_start_frame = Inl ArcamProtocolError \<and>
   broadcast_loop
     (listening_session (frame_reads bad_start_frame @ frame_reads volume_frame))
     [volume_response] =
     (listening_session (frame_reads volume_frame), [volume_response])"
proof -
  let ?q = "ReadTimeout # frame_reads volume_frame"
  let ?b = "frame_reads bad_start_frame @ frame_reads volume_frame"
  note c = listening_session_connected
  have t: "read_response (Some ?q) = (Inl TimeoutError, Some (frame_reads volume_frame))"
    by (simp add: read_response_def)
  have rq: "reader (listening_session ?q) = Some ?q" and nq: "?q \<noteq> []" by simp_all
  have rb: "reader (listening_session ?b) = Some ?b" and nb: "?b \<noteq> []"
    by (simp_all add: frame_reads_def)
  note quiet = listener_leaves_on_decode_failure [OF c rq nq, of "[]", THEN conjunct1,
      rule_format, OF t]
  note bad = listener_leaves_on_decode_failure [OF c rb nb, of "[volume_response]",
      THEN conjunct2, rule_format, OF conjI, OF read_bad_start_frame decode_bad_start_frame]
  from quiet bad show ?thesis
    using c t read_bad_start_frame decode_bad_start_frame by simp
qed

text \<open>A frame that does not decode followed by one that does: the listener returns
  with nothing handed to the callback and the second frame unread, though the session
  is still connected and the reader is not at end of file.\<close>

theorem listener_stops_counterexample:
  "decode_response bad_start_frame = Inl ArcamProtocolError \<and>
   decode_response volume_frame = Inr volume_response \<and>
   is_connected (listening_session (frame_reads bad_start_frame @ frame_reads volume_frame)) \<and>
   broadcast_listener
     (listening_session (frame_reads bad_start_frame @ frame_reads volume_frame)) =
     (listening_session (frame_reads volume_frame), []) \<and>
   frame_reads volume_frame \<noteq> []"
proof -
  let ?rd = "frame_reads bad_start_frame @ frame_reads volume_frame"
  have ne: "?rd \<noteq> []" by (simp add: frame_reads_def)
  have rdr: "reader (listening_session ?rd) = Some ?rd" by simp
  from broadcast_loop_decode_failure
    [OF listening_session_connected rdr ne read_bad_start_frame decode_bad_start_frame, of "[]"]
  have "broadcast_loop (listening_session ?rd) [] =
        (listening_session (frame_reads volume_frame), [])"
    by simp
  then show ?thesis
    using decode_bad_start_frame decode_volume_frame listening_session_connected
    by (simp add: broadcast_listener_def frame_reads_def)
qed

subsection \<open>Sending a command\<close>

text \<open>
  C7. When \<^verbatim>\<open>send_command\<close> runs on a connected session, the write succeeds, and the
  bytes read decode into a response whose command code differs from that of the command
  sent, then \<^verbatim>\<open>send_command\<close> returns that response: no error is raised, no
  reconnection is scheduled, and the only trace of the mismatch is the two warnings
  logged. \<^verbatim>\<open>validate_response\<close> returns true exactly when the command code of the
  response equals the expected one.
\<close>

theorem send_command_mismatch_returned:
  assumes "is_connected s"
    and "encode_command command = Inr command_bytes"
    and "writer s = Some w" and "\<not> broken w"
    and "read_response (reader s) = (Inr response_data, rd)"
    and "decode_response response_data = Inr response"
    and "ArcamResponse.command_code response \<noteq> ArcamCommand.command_code command"
  shows "send_command s command =
           (Inr response,
            s\<lparr>writer := Some (w\<lparr>sent := sent w @ command_bytes\<rparr>), reader := rd,
              warnings := warnings s @
                [WarnCommandCodeMismatch (ArcamCommand.command_code command)
                   (ArcamResponse.command_code response),
                 WarnResponseMismatch]\<rparr>) \<and>
         (\<forall>r expected. fst (validate_response r expected) =
            (ArcamResponse.command_code r = expected))"
  using assms by (simp add: send_command_def validate_response_def Let_def)

theorem send_command_mismatch_returned_witness:
  "is_connected (listening_session (frame_reads volume_frame)) \<and>
   power_on 1 = Inr \<lparr>ArcamCommand.zone = 1, command_code = 0, data = [0x01]\<rparr> \<and>
   encode_command \<lparr>ArcamCommand.zone = 1, command_code = 0, data = [0x01]\<rparr> =
     Inr [0x21, 0x01, 0x00, 0x01, 0x01, 0x0D] \<and>
   writer (listening_session (frame_reads volume_frame)) = Some fresh_writer \<and>
   \<not> broken fresh_writer \<and>
   read_response (reader (listening_session (frame_reads volume_frame))) =
     (Inr volume_frame, Some []) \<and>
   decode_response volume_frame = Inr volume_response \<and>
   ArcamResponse.command_code volume_response \<noteq> 0 \<and>
   fst (send_command (listening_session (frame_reads volume_frame))
          \<lparr>ArcamCommand.zone = 1, command_code = 0, data = [0x01]\<rparr>) =
     Inr volume_response \<and>
   warnings (snd (send_command (listening_session (frame_reads volume_frame))
                    \<lparr>ArcamCommand.zone = 1, command_code = 0, data = [0x01]\<rparr>)) =
     [WarnCommandCodeMismatch 0 0x0D, WarnResponseMismatch] \<and>
   created_tasks (snd (send_command (listening_session (frame_reads volume_frame))
                    \<lparr>ArcamCommand.zone = 1, command_code = 0, data = [0x01]\<rparr>)) = []"
proof -
  let ?s = "listening_session (frame_reads volume_frame)"
  let ?c = "\<lparr>ArcamCommand.zone = 1, command_code = 0, data = [0x01]\<rparr>"
  have h0: "power_on 1 = Inr ?c"
    by (simp add: power_on_def to_byte_def new_ArcamCommand_def POWER_def)
  have h1: "is_connected ?s" by (rule listening_session_connected)
  have h2: "encode_command ?c = Inr [0x21, 0x01, 0x00, 0x01, 0x01, 0x0D]"
    by (simp add: encode_command_def to_byte_def protocol_consts)
  have h3: "writer ?s = Some fresh_writer" by (simp add: listening_session_def)
  have h4: "\<not> broken fresh_writer" by (simp add: fresh_writer_def)
  have h5: "read_response (reader ?s) = (Inr volume_frame, Some [])"
    using read_volume_frame [of "[]"] by simp
  note h6 = decode_volume_frame
  have h7: "ArcamResponse.command_code volume_response \<noteq> ArcamCommand.command_code ?c"
    by (simp add: volume_response_def)
  from send_command_mismatch_returned [OF h1 h2 h3 h4 h5 h6 h7] h0 h1 h2 h3 h4 h5 h6 h7
  show ?thesis by (simp add: volume_response_def listening_session_def)
qed

subsection \<open>Reconnection with backoff\<close>



lemma other_calls_none [simp]: "other_calls [] s = s"
  by (simp add: other_calls_def)















end
